theory Spec2Isabelle
  imports Main
begin

section \<open>JavaScript values\<close>

text \<open>
  The values that flow through \<^verbatim>\<open>tuyaapi-extended.js\<close>: option objects, payloads
  and decoded replies. An object is an association list in insertion order, each key once.
  Numbers are the integers (the data points of a device are booleans, integers and
  strings); arrays and functions do not occur in the payloads and are left out, and so
  are the properties an object inherits from its prototype.
\<close>

datatype jsval =
    JUndefined
  | JNull
  | JBool bool
  | JNum int
  | JStr string
  | JObj "(string \<times> jsval) list"
  | JErr string string

text \<open>
  \<open>JErr name message\<close> is an \<^verbatim>\<open>Error\<close> object: the name of its class and its message.
  Whatever is thrown, or rejects a promise, is a value.

  A promise, seen from its consumer: resolved with a value, rejected with a reason, or
  never settled.
\<close>

datatype settle = Resolved jsval | Rejected jsval | Pending

subsection \<open>Coercions\<close>

text \<open>\<^verbatim>\<open>if (v)\<close>: ToBoolean.\<close>

fun truthy :: "jsval \<Rightarrow> bool" where
  "truthy JUndefined = False"
| "truthy JNull = False"
| "truthy (JBool b) = b"
| "truthy (JNum n) = (n \<noteq> 0)"
| "truthy (JStr s) = (s \<noteq> [])"
| "truthy (JObj kvs) = True"
| "truthy (JErr n m) = True"

text \<open>\<^verbatim>\<open>v == undefined\<close>: loose equality holds for \<^verbatim>\<open>undefined\<close> and \<^verbatim>\<open>null\<close> only.\<close>

fun loosely_undefined :: "jsval \<Rightarrow> bool" where
  "loosely_undefined JUndefined = True"
| "loosely_undefined JNull = True"
| "loosely_undefined v = False"

text \<open>Decimal digits of a natural number, as \<^verbatim>\<open>Number.prototype.toString\<close> prints them.\<close>

fun digits :: "nat \<Rightarrow> string" where
  "digits n = (if n < 10 then [''0123456789'' ! n]
               else digits (n div 10) @ [''0123456789'' ! (n mod 10)])"

declare digits.simps [simp del]

definition show_int :: "int \<Rightarrow> string" where
  "show_int i = (if i < 0 then CHR ''-'' # digits (nat (- i)) else digits (nat i))"

text \<open>ToString, as applied to a computed property key \<^verbatim>\<open>o[k]\<close>.\<close>

fun to_key :: "jsval \<Rightarrow> string" where
  "to_key JUndefined = ''undefined''"
| "to_key JNull = ''null''"
| "to_key (JBool b) = (if b then ''true'' else ''false'')"
| "to_key (JNum n) = show_int n"
| "to_key (JStr s) = s"
| "to_key (JObj kvs) = ''[object Object]''"
| "to_key (JErr n m) = (if m = [] then n else n @ '': '' @ m)"

text \<open>
  The method call \<^verbatim>\<open>v.toString()\<close>: a TypeError on \<^verbatim>\<open>undefined\<close> and \<^verbatim>\<open>null\<close>, which
  have no properties.
\<close>

definition no_properties :: "jsval \<Rightarrow> string \<Rightarrow> jsval" where
  "no_properties v k =
     JErr ''TypeError'' (''Cannot read property '' @ k @ '' of '' @ to_key v)"

definition toString :: "jsval \<Rightarrow> jsval + string" where
  "toString v = (if loosely_undefined v then Inl (no_properties v ''toString'')
                 else Inr (to_key v))"

subsection \<open>Property access\<close>

text \<open>
  The own properties of a value. A string has its length and its characters at the
  canonical indices; booleans and numbers have none.
\<close>

fun own :: "jsval \<Rightarrow> string \<Rightarrow> jsval" where
  "own (JObj kvs) k = (case map_of kvs k of None \<Rightarrow> JUndefined | Some v \<Rightarrow> v)"
| "own (JStr s) k =
     (if k = ''length'' then JNum (int (length s))
      else case find (\<lambda>i. digits i = k) [0..<length s] of
             None \<Rightarrow> JUndefined
           | Some i \<Rightarrow> JStr [s ! i])"
| "own (JErr n m) k =
     (if k = ''message'' then JStr m else if k = ''name'' then JStr n else JUndefined)"
| "own v k = JUndefined"

text \<open>\<^verbatim>\<open>o[k]\<close> with the key already a string: reading a property of
  \<^verbatim>\<open>undefined\<close> or \<^verbatim>\<open>null\<close> throws.\<close>

definition get_prop :: "jsval \<Rightarrow> string \<Rightarrow> jsval + jsval" where
  "get_prop v k = (if loosely_undefined v then Inl (no_properties v k) else Inr (own v k))"

text \<open>\<^verbatim>\<open>Object.keys\<close> of an object.\<close>

fun keys :: "jsval \<Rightarrow> string list" where
  "keys (JObj kvs) = map fst kvs"
| "keys v = []"

section \<open>Shaping the reply of a query\<close>

text \<open>
  The callback of \<^verbatim>\<open>get\<close> (lines 37 to 49), run on the data the transport resolved
  with. An exception thrown in it rejects the promise of \<^verbatim>\<open>then\<close>, which the
  \<^verbatim>\<open>catch\<close> passes on to \<^verbatim>\<open>reject\<close>.
\<close>

definition get_options :: "jsval \<Rightarrow> jsval" where
  "get_options options = (if truthy options then options else JObj [])"

definition get_then :: "jsval \<Rightarrow> jsval \<Rightarrow> settle" where
  "get_then options0 data =
     (let options = get_options options0 in
      case get_prop data ''dps'' of
        Inl e \<Rightarrow> Rejected e
      | Inr dps \<Rightarrow>
          if own options ''schema'' = JBool True then Resolved data
          else if truthy (own options ''dps'') then
            (case get_prop dps (to_key (own options ''dps'')) of
               Inl e \<Rightarrow> Rejected e
             | Inr v \<Rightarrow> Resolved v)
          else if \<not> loosely_undefined dps \<and> \<not> loosely_undefined (own dps ''1'')
               then Resolved (own dps ''1'')
          else Resolved dps)"

section \<open>The device and the library it is built on\<close>

text \<open>
  \<^verbatim>\<open>this.device\<close>: the identity of the device and the cipher object made from its key.
  The cipher (\<^verbatim>\<open>tuyapi/lib/cipher\<close>), the frame codec (\<^verbatim>\<open>tuyapi/lib/message-parser\<close>) and
  \<^verbatim>\<open>JSON.stringify\<close> belong to the packages the file requires, not to the file: they are
  parameters of the model. Decoding and decrypting can throw.
\<close>

record cipher =
  encrypt :: "string \<Rightarrow> string"
  decrypt :: "jsval \<Rightarrow> jsval + jsval"
  md5 :: "string \<Rightarrow> string"

record device =
  dev_id :: string
  dev_key :: string
  dev_ip :: "string option"
  dev_version :: string
  dev_cipher :: cipher

text \<open>
  What \<^verbatim>\<open>Parser.encode\<close> is given as \<^verbatim>\<open>data\<close>: an object (for a query) or a
  \<^verbatim>\<open>Buffer\<close> (for a control command).
\<close>

datatype body = Object jsval | Buffer string

record library =
  parser_encode :: "body \<Rightarrow> string \<Rightarrow> string"
  parser_parse :: "string \<Rightarrow> jsval + jsval"
  json_stringify :: "jsval \<Rightarrow> string"

section \<open>Building the requests\<close>

text \<open>Lines 23 to 34 of \<^verbatim>\<open>get\<close>: the payload of a query and its frame.\<close>

definition get_payload :: "device \<Rightarrow> jsval" where
  "get_payload dev = JObj [(''gwId'', JStr (dev_id dev)), (''devId'', JStr (dev_id dev))]"

definition get_buffer :: "library \<Rightarrow> device \<Rightarrow> string" where
  "get_buffer lib dev = parser_encode lib (Object (get_payload dev)) ''0a''"

text \<open>
  Lines 57 to 72 of \<^verbatim>\<open>set\<close>: the property map of a control command.
  \<^verbatim>\<open>Object.keys(options)\<close> on line 58 throws on \<^verbatim>\<open>undefined\<close> and \<^verbatim>\<open>null\<close>; its
  count is not used.
\<close>

definition set_dps :: "jsval \<Rightarrow> jsval + jsval" where
  "set_dps options =
     (if loosely_undefined options
      then Inl (JErr ''TypeError'' ''Cannot convert undefined or null to object'')
      else if \<not> loosely_undefined (own options ''dps'') \<or>
              \<not> loosely_undefined (own options ''set'')
      then (if own options ''dps'' = JUndefined
            then Inr (JObj [(''1'', own options ''set'')])
            else case toString (own options ''dps'') of
                   Inl e \<Rightarrow> Inl e
                 | Inr k \<Rightarrow> Inr (JObj [(k, own options ''set'')]))
      else Inr options)"

text \<open>
  Lines 74 and 75: \<^verbatim>\<open>parseInt(now.getTime() / 1000, 10).toString()\<close>, with the clock in
  milliseconds. \<^verbatim>\<open>parseInt\<close> reads the integer part of the quotient, so it truncates
  towards zero.
\<close>

definition timeStamp :: "int \<Rightarrow> string" where
  "timeStamp now = show_int (if now < 0 then - ((- now) div 1000) else now div 1000)"

text \<open>Lines 77 to 102: payload, ciphertext, signature and frame of a control command.\<close>

definition set_payload :: "device \<Rightarrow> int \<Rightarrow> jsval \<Rightarrow> jsval" where
  "set_payload dev now dps =
     JObj [(''devId'', JStr (dev_id dev)), (''uid'', JStr []),
           (''t'', JStr (timeStamp now)), (''dps'', dps)]"

definition set_buffer :: "library \<Rightarrow> device \<Rightarrow> int \<Rightarrow> jsval \<Rightarrow> string" where
  "set_buffer lib dev now dps =
     (let data = encrypt (dev_cipher dev) (json_stringify lib (set_payload dev now dps));
          md5 = md5 (dev_cipher dev)
                 (''data='' @ data @ ''||lpv='' @ dev_version dev @ ''||'' @ dev_key dev);
          thisData = dev_version dev @ md5 @ data
      in parser_encode lib (Buffer thisData) ''07'')"

text \<open>
  The same in the words of the specification: the signature of a ciphertext, the
  envelope, and a command byte read as a number.
\<close>

definition spec_signature :: "cipher \<Rightarrow> string \<Rightarrow> string \<Rightarrow> string \<Rightarrow> string" where
  "spec_signature c ciphertext protocolVersion key =
     md5 c (''data='' @ ciphertext @ ''||lpv='' @ protocolVersion @ ''||'' @ key)"

definition spec_envelope :: "string \<Rightarrow> string \<Rightarrow> string \<Rightarrow> string" where
  "spec_envelope protocolVersion signature ciphertext =
     protocolVersion @ signature @ ciphertext"



definition hex_digit :: "char \<Rightarrow> nat" where
  "hex_digit c = (case find (\<lambda>i. ''0123456789abcdef'' ! i = c) [0..<16] of
                    None \<Rightarrow> 0 | Some i \<Rightarrow> i)"

definition hex_value :: "string \<Rightarrow> nat" where
  "hex_value s = foldl (\<lambda>a c. 16 * a + hex_digit c) 0 s"

section \<open>The retrying transport\<close>

subsection \<open>The package \<^verbatim>\<open>retry\<close>\<close>

text \<open>
  \<^verbatim>\<open>_send\<close> drives its attempts with an operation of the package \<^verbatim>\<open>retry\<close>, which the
  file requires on line 8 and which is not part of the repository. Its \<^verbatim>\<open>timeouts\<close>,
  \<^verbatim>\<open>RetryOperation.retry\<close> and \<^verbatim>\<open>RetryOperation.mainError\<close> are rendered here as the
  package documents them, with the defaults the call on line 119 leaves in place (no
  upper bound on a timeout, no randomisation, no retrying forever): the timeout before
  retry \<open>i\<close> is the minimum times the factor to the power \<open>i\<close>, rounded. The factor is
  a fraction, 1.5 being 3/2; \<^verbatim>\<open>Math.round\<close> rounds a half upwards.
\<close>

record retry_options =
  retries :: nat
  factor_num :: nat
  factor_den :: nat
  minTimeout :: nat

definition createTimeout :: "retry_options \<Rightarrow> nat \<Rightarrow> nat" where
  "createTimeout opts attempt =
     (2 * max (minTimeout opts) 1 * factor_num opts ^ attempt + factor_den opts ^ attempt)
       div (2 * factor_den opts ^ attempt)"

definition retry_timeouts :: "retry_options \<Rightarrow> nat list" where
  "retry_timeouts opts = sort (map (createTimeout opts) [0..<retries opts])"

record operation =
  timeouts :: "nat list"
  errors :: "jsval list"

text \<open>
  \<^verbatim>\<open>operation.retry(err)\<close>: nothing to retry without an error; otherwise the error is
  recorded, and the next timeout, if one is left, is the wait before the next attempt.
\<close>

definition retry :: "jsval \<Rightarrow> operation \<Rightarrow> nat option \<times> operation" where
  "retry err op =
     (if \<not> truthy err then (None, op)
      else case timeouts op of
             [] \<Rightarrow> (None, op\<lparr>errors := errors op @ [err]\<rparr>)
           | t # ts \<Rightarrow> (Some t, op\<lparr>errors := errors op @ [err], timeouts := ts\<rparr>))"

text \<open>
  \<^verbatim>\<open>operation.mainError()\<close>: the error whose message was recorded most often, the later
  one on a tie; \<^verbatim>\<open>null\<close> when nothing was recorded.
\<close>

fun mainError_loop :: "jsval list \<Rightarrow> (string \<Rightarrow> nat) \<Rightarrow> jsval \<Rightarrow> nat \<Rightarrow> jsval" where
  "mainError_loop [] counts mainError mainErrorCount = mainError"
| "mainError_loop (error # rest) counts mainError mainErrorCount =
     (let message = to_key (own error ''message'');
          count = counts message + 1;
          counts' = counts(message := count)
      in if count \<ge> mainErrorCount
         then mainError_loop rest counts' error count
         else mainError_loop rest counts' mainError mainErrorCount)"

definition mainError :: "operation \<Rightarrow> jsval" where
  "mainError op = mainError_loop (errors op) (\<lambda>m. 0) JNull 0"

subsection \<open>Sending with retries\<close>

text \<open>
  What a call of \<^verbatim>\<open>_send\<close> comes to: it throws, or it returns a promise. With it, the
  number of times \<^verbatim>\<open>_sendUnwrapped\<close> was called, each call opening one socket, and the
  waits between the attempts in milliseconds.
\<close>

datatype outcome = Throws jsval | Promise settle

record send_run =
  result :: outcome
  attempts :: nat
  waits :: "nat list"

text \<open>
  Lines 126 to 138. \<open>su ip buffer n\<close> is what the promise of the \<open>n\<close>-th call
  \<^verbatim>\<open>this._sendUnwrapped(ip, buffer)\<close> does. A promise that never settles calls neither
  callback, so nothing follows it.
\<close>

function attempt ::
  "(string \<Rightarrow> string \<Rightarrow> nat \<Rightarrow> settle) \<Rightarrow> string \<Rightarrow> string \<Rightarrow> operation \<Rightarrow> nat \<Rightarrow> nat list
     \<Rightarrow> send_run" where
  "attempt su ip buffer op currentAttempt ws =
     (case su ip buffer currentAttempt of
        Resolved r \<Rightarrow>
          \<lparr>result = Promise (Resolved r), attempts = currentAttempt, waits = ws\<rparr>
      | Pending \<Rightarrow>
          \<lparr>result = Promise Pending, attempts = currentAttempt, waits = ws\<rparr>
      | Rejected error \<Rightarrow>
          (case retry error op of
             (Some t, op') \<Rightarrow> attempt su ip buffer op' (Suc currentAttempt) (ws @ [t])
           | (None, op') \<Rightarrow>
               \<lparr>result = Promise (Rejected (mainError op')),
                attempts = currentAttempt, waits = ws\<rparr>))"
  by pat_completeness auto
termination
  by (relation "measure (\<lambda>(su, ip, buffer, op, n, ws). length (timeouts op))")
     (auto simp: retry_def split: if_splits list.splits)

declare attempt.simps [simp del]

text \<open>Lines 114 to 140.\<close>

definition send ::
  "(string \<Rightarrow> string \<Rightarrow> nat \<Rightarrow> settle) \<Rightarrow> string option \<Rightarrow> string \<Rightarrow> send_run" where
  "send su ip buffer =
     (case ip of
        None \<Rightarrow> \<lparr>result = Throws (JErr ''TypeError'' ''Device missing IP address.''),
                 attempts = 0, waits = []\<rparr>
      | Some a \<Rightarrow>
          attempt su a buffer
            \<lparr>timeouts = retry_timeouts
                \<lparr>retries = 4, factor_num = 3, factor_den = 2, minTimeout = 10000\<rparr>,
             errors = []\<rparr> 1 [])"

section \<open>Query and update\<close>

text \<open>
  \<^verbatim>\<open>get\<close> and \<^verbatim>\<open>set\<close> call \<^verbatim>\<open>_send\<close> inside the executor of the promise they return,
  so what \<^verbatim>\<open>_send\<close> throws rejects that promise.
\<close>

definition get ::
  "library \<Rightarrow> device \<Rightarrow> (string \<Rightarrow> string \<Rightarrow> nat \<Rightarrow> settle) \<Rightarrow> jsval \<Rightarrow> settle" where
  "get lib dev su options =
     (case result (send su (dev_ip dev) (get_buffer lib dev)) of
        Throws e \<Rightarrow> Rejected e
      | Promise (Resolved data) \<Rightarrow> get_then options data
      | Promise (Rejected err) \<Rightarrow> Rejected err
      | Promise Pending \<Rightarrow> Pending)"

definition set_call ::
  "library \<Rightarrow> device \<Rightarrow> int \<Rightarrow> (string \<Rightarrow> string \<Rightarrow> nat \<Rightarrow> settle) \<Rightarrow> jsval \<Rightarrow> outcome" where
  "set_call lib dev now su options =
     (case set_dps options of
        Inl e \<Rightarrow> Throws e
      | Inr dps \<Rightarrow>
          Promise
            (case result (send su (dev_ip dev) (set_buffer lib dev now dps)) of
               Throws e \<Rightarrow> Rejected e
             | Promise (Resolved r) \<Rightarrow> Resolved (JBool True)
             | Promise (Rejected err) \<Rightarrow> Rejected err
             | Promise Pending \<Rightarrow> Pending))"

section \<open>One attempt: socket, timers and handlers\<close>

text \<open>
  \<^verbatim>\<open>_sendUnwrapped\<close> registers handlers and returns; what happens next is decided by the
  events the socket and the timers deliver. The state is therefore explicit: the fields
  of the session (\<^verbatim>\<open>this\<close>), the pending timers of the runtime, and for each call of
  \<^verbatim>\<open>_sendUnwrapped\<close> its closure, namely the socket, the frame and the promise.
\<close>

record socket =
  host :: string
  port :: nat
  connected :: bool
  destroyed :: bool
  idle :: "nat option"
  written :: "string list"

record call =
  client :: socket
  buffer :: string
  promise :: settle

text \<open>
  A call arms at most one response timer, so a timer is named by the call that armed it:
  \<open>timers\<close> holds the pending ones with their delays in milliseconds, and
  \<open>sendTimeout\<close>, the field \<^verbatim>\<open>this._sendTimeout\<close>, names the timer last armed.
  \<open>uncaught\<close> collects what a handler threw: nothing catches it.
\<close>

record world =
  device :: device
  responseTimeout :: nat
  sendTimeout :: "nat option"
  timers :: "(nat \<times> nat) list"
  calls :: "call list"
  uncaught :: "jsval list"

definition upd_call :: "nat \<Rightarrow> (call \<Rightarrow> call) \<Rightarrow> world \<Rightarrow> world" where
  "upd_call c f w = w\<lparr>calls := (calls w)[c := f (calls w ! c)]\<rparr>"

text \<open>A promise settles once: later calls of \<^verbatim>\<open>resolve\<close> and \<^verbatim>\<open>reject\<close> do nothing.\<close>

definition settle_with :: "settle \<Rightarrow> call \<Rightarrow> call" where
  "settle_with s k = (if promise k = Pending then k\<lparr>promise := s\<rparr> else k)"

definition resolve :: "nat \<Rightarrow> jsval \<Rightarrow> world \<Rightarrow> world" where
  "resolve c v = upd_call c (settle_with (Resolved v))"

definition reject :: "nat \<Rightarrow> jsval \<Rightarrow> world \<Rightarrow> world" where
  "reject c e = upd_call c (settle_with (Rejected e))"

text \<open>\<^verbatim>\<open>client.destroy()\<close> closes the socket and stops its idle timer.\<close>

definition destroy :: "nat \<Rightarrow> world \<Rightarrow> world" where
  "destroy c = upd_call c (\<lambda>k. k\<lparr>client := (client k)\<lparr>destroyed := True, idle := None\<rparr>\<rparr>)"

text \<open>\<^verbatim>\<open>clearTimeout(this._sendTimeout)\<close>: the timer the field names, whoever armed it.\<close>

definition clearTimeout :: "nat option \<Rightarrow> world \<Rightarrow> world" where
  "clearTimeout h w =
     (case h of None \<Rightarrow> w | Some c \<Rightarrow> w\<lparr>timers := filter (\<lambda>t. fst t \<noteq> c) (timers w)\<rparr>)"

fun typeof :: "jsval \<Rightarrow> string" where
  "typeof JUndefined = ''undefined''"
| "typeof (JBool b) = ''boolean''"
| "typeof (JNum n) = ''number''"
| "typeof (JStr s) = ''string''"
| "typeof v = ''object''"

text \<open>
  Lines 142 to 158 and 202: the synchronous part. A new socket starts to connect to port
  6668 with an idle timeout of 1000 ms, and the promise is pending.
\<close>

definition sendUnwrapped_start :: "string \<Rightarrow> string \<Rightarrow> world \<Rightarrow> world" where
  "sendUnwrapped_start ip buf w =
     w\<lparr>calls := calls w @
        [\<lparr>client = \<lparr>host = ip, port = 6668, connected = False, destroyed = False,
                    idle = Some 1000, written = []\<rparr>,
          buffer = buf, promise = Pending\<rparr>]\<rparr>"

text \<open>Lines 194 to 200, the handler of \<^verbatim>\<open>error\<close>: the message is replaced.\<close>

definition error_message :: string where
  "error_message = ''Error communicating with device. Make sure nothing else is trying to control it or connected to it.''"

definition on_error :: "nat \<Rightarrow> string \<Rightarrow> string \<Rightarrow> world \<Rightarrow> world" where
  "on_error c name msg w = reject c (JErr name error_message) w"

text \<open>Lines 154 to 158, the callback of the idle timeout.\<close>

definition on_timeout :: "nat \<Rightarrow> world \<Rightarrow> world" where
  "on_timeout c w = destroy c (on_error c ''Error'' ''connection timed out'' w)"

text \<open>Lines 161 to 174, the handler of \<^verbatim>\<open>connect\<close>.\<close>

definition on_connect :: "nat \<Rightarrow> world \<Rightarrow> world" where
  "on_connect c w =
     (let w1 = upd_call c (\<lambda>k. k\<lparr>client := (client k)\<lparr>idle := None\<rparr>\<rparr>) w;
          w2 = upd_call c
                 (\<lambda>k. k\<lparr>client := (client k)\<lparr>written := written (client k) @ [buffer k]\<rparr>\<rparr>) w1
      in w2\<lparr>timers := timers w2 @ [(c, responseTimeout w2 * 1000)],
            sendTimeout := Some c\<rparr>)"

text \<open>Lines 170 to 173, the callback of the response timer.\<close>

definition on_sendTimeout :: "nat \<Rightarrow> world \<Rightarrow> world" where
  "on_sendTimeout c w = reject c (JErr ''Error'' ''Timeout waiting for response'') (destroy c w)"

text \<open>
  Lines 177 to 191, the handler of \<^verbatim>\<open>data\<close>. \<^verbatim>\<open>Parser.parse\<close> and \<^verbatim>\<open>decrypt\<close> are called
  in the handler, outside any \<^verbatim>\<open>try\<close> and outside the executor of the promise: what
  they throw leaves the handler uncaught and the promise as it was.
\<close>

definition on_data :: "library \<Rightarrow> nat \<Rightarrow> string \<Rightarrow> world \<Rightarrow> world" where
  "on_data lib c bytes w =
     (let w1 = clearTimeout (sendTimeout w) w;
          w2 = destroy c w1
      in case parser_parse lib bytes of
           Inl e \<Rightarrow> w2\<lparr>uncaught := uncaught w2 @ [e]\<rparr>
         | Inr data \<Rightarrow>
             if typeof data = ''object'' \<or> typeof data = ''undefined''
             then resolve c data w2
             else (case decrypt (dev_cipher (device w2)) data of
                     Inl e \<Rightarrow> w2\<lparr>uncaught := uncaught w2 @ [e]\<rparr>
                   | Inr v \<Rightarrow> resolve c v w2))"

subsection \<open>Events\<close>

text \<open>
  What the network and the clock can deliver to call \<open>c\<close>: the connection is made;
  bytes arrive; the socket fails (it is destroyed, then \<^verbatim>\<open>error\<close> is emitted); the idle
  timeout of the socket passes; the response timer armed by \<open>c\<close> fires. An event is
  delivered only where the runtime can deliver it: to a socket that exists and is not
  destroyed, a connection once, data on a connection, an idle timeout while one is set,
  a timer while it is pending.
\<close>

datatype event =
    Connect nat
  | Data nat string
  | SockError nat string string
  | IdleTimeout nat
  | SendTimeout nat

definition alive :: "world \<Rightarrow> nat \<Rightarrow> bool" where
  "alive w c = (c < length (calls w) \<and> \<not> destroyed (client (calls w ! c)))"

fun step :: "library \<Rightarrow> world \<Rightarrow> event \<Rightarrow> world" where
  "step lib w (Connect c) =
     (if alive w c \<and> \<not> connected (client (calls w ! c))
      then on_connect c (upd_call c (\<lambda>k. k\<lparr>client := (client k)\<lparr>connected := True\<rparr>\<rparr>) w)
      else w)"
| "step lib w (Data c bytes) =
     (if alive w c \<and> connected (client (calls w ! c)) then on_data lib c bytes w else w)"
| "step lib w (SockError c name msg) =
     (if alive w c then on_error c name msg (destroy c w) else w)"
| "step lib w (IdleTimeout c) =
     (if alive w c \<and> idle (client (calls w ! c)) \<noteq> None then on_timeout c w else w)"
| "step lib w (SendTimeout c) =
     (if c < length (calls w) \<and> c \<in> fst ` set (timers w)
      then on_sendTimeout c (w\<lparr>timers := filter (\<lambda>t. fst t \<noteq> c) (timers w)\<rparr>)
      else w)"

definition run :: "library \<Rightarrow> world \<Rightarrow> event list \<Rightarrow> world" where
  "run lib w evs = foldl (step lib) w evs"

text \<open>The call an event belongs to.\<close>

fun call_of :: "event \<Rightarrow> nat" where
  "call_of (Connect c) = c"
| "call_of (Data c bytes) = c"
| "call_of (SockError c name msg) = c"
| "call_of (IdleTimeout c) = c"
| "call_of (SendTimeout c) = c"

fun is_data :: "event \<Rightarrow> bool" where
  "is_data (Data c bytes) = True"
| "is_data ev = False"

subsection \<open>An attempt on its own\<close>

text \<open>
  A session on which nothing has been sent yet, and one call of \<^verbatim>\<open>_sendUnwrapped\<close> on
  a session \<open>w\<close>, given everything that then happens: what its promise comes to.
  \<open>env n\<close> is the list of events of the \<open>n\<close>-th attempt. The attempts of one
  \<^verbatim>\<open>_send\<close> follow one another, and an attempt reads \<^verbatim>\<open>this._sendTimeout\<close> only after
  it has set it on connecting, so each attempt is run from \<open>w\<close> as it was.
\<close>

definition session :: "device \<Rightarrow> nat \<Rightarrow> world" where
  "session dev rt =
     \<lparr>device = dev, responseTimeout = rt, sendTimeout = None, timers = [], calls = [],
      uncaught = []\<rparr>"

definition sendUnwrapped ::
  "library \<Rightarrow> world \<Rightarrow> (nat \<Rightarrow> event list) \<Rightarrow> string \<Rightarrow> string \<Rightarrow> nat \<Rightarrow> settle" where
  "sendUnwrapped lib w env ip buf n =
     promise (calls (run lib (sendUnwrapped_start ip buf w) (env n)) ! length (calls w))"

subsection \<open>Phases of an attempt\<close>



definition finished :: "world \<Rightarrow> nat \<Rightarrow> bool" where
  "finished w c =
     (c < length (calls w) \<and> destroyed (client (calls w ! c)) \<and> c \<notin> fst ` set (timers w))"



text \<open>What the handler of \<^verbatim>\<open>data\<close> throws on the bytes of a reply, if it throws.\<close>

definition reply_throws :: "library \<Rightarrow> device \<Rightarrow> string \<Rightarrow> jsval option" where
  "reply_throws lib dev bytes =
     (case parser_parse lib bytes of
        Inl e \<Rightarrow> Some e
      | Inr data \<Rightarrow>
          if typeof data = ''object'' \<or> typeof data = ''undefined'' then None
          else (case decrypt (dev_cipher dev) data of Inl e \<Rightarrow> Some e | Inr v \<Rightarrow> None))"

subsection \<open>The kinds of error of the specification\<close>

definition is_MissingAddressError :: "jsval \<Rightarrow> bool" where
  "is_MissingAddressError e = (e = JErr ''TypeError'' ''Device missing IP address.'')"

definition is_ConnectionError :: "jsval \<Rightarrow> bool" where
  "is_ConnectionError e = (case e of JErr n m \<Rightarrow> m = error_message | _ \<Rightarrow> False)"


section \<open>A device to compute with\<close>

text \<open>
  Stand-ins for the cipher and the codec, and a device, for evaluating the model on
  concrete inputs: the cipher brackets its input, the digest prefixes it, the parser
  rejects an empty packet and decodes any other to one reply.
\<close>

definition example_cipher :: cipher where
  "example_cipher = \<lparr>encrypt = (\<lambda>s. ''<'' @ s @ ''>''), decrypt = Inr, md5 = (\<lambda>s. ''#'' @ s)\<rparr>"

definition example_device :: device where
  "example_device = \<lparr>dev_id = ''bf01'', dev_key = ''secret'', dev_ip = Some ''192.168.1.20'',
     dev_version = ''3.1'', dev_cipher = example_cipher\<rparr>"

definition example_library :: library where
  "example_library =
     \<lparr>parser_encode = (\<lambda>b c. c @ (case b of Object v \<Rightarrow> ''{}'' | Buffer s \<Rightarrow> s)),
      parser_parse = (\<lambda>bytes. if bytes = [] then Inl (JErr ''Error'' ''Packet too small'')
                               else Inr (JObj [(''dps'', JObj [(''1'', JBool True)])])),
      json_stringify = (\<lambda>v. ''{}'')\<rparr>"

section \<open>Properties\<close>

subsection \<open>Sending with retries\<close>

lemma retry_timeouts_send:
  "retry_timeouts \<lparr>retries = 4, factor_num = 3, factor_den = 2, minTimeout = 10000\<rparr>
     = [10000, 15000, 22500, 33750]"
  by (simp add: retry_timeouts_def createTimeout_def upt_rec)

lemma send_Some:
  "send su (Some a) buf =
     attempt su a buf \<lparr>timeouts = [10000, 15000, 22500, 33750], errors = []\<rparr> 1 []"
  by (simp add: send_def retry_timeouts_send)

lemma attempt_Resolved:
  "su a b n = Resolved r \<Longrightarrow>
     attempt su a b op n ws = \<lparr>result = Promise (Resolved r), attempts = n, waits = ws\<rparr>"
  by (subst attempt.simps) simp

lemma attempt_Pending:
  "su a b n = Pending \<Longrightarrow>
     attempt su a b op n ws = \<lparr>result = Promise Pending, attempts = n, waits = ws\<rparr>"
  by (subst attempt.simps) simp

lemma attempt_Rejected_more:
  "su a b n = Rejected e \<Longrightarrow> truthy e \<Longrightarrow> timeouts op = t # ts \<Longrightarrow>
     attempt su a b op n ws =
       attempt su a b (op\<lparr>errors := errors op @ [e], timeouts := ts\<rparr>) (Suc n) (ws @ [t])"
  by (subst attempt.simps) (simp add: retry_def)

lemma attempt_Rejected_last:
  "su a b n = Rejected e \<Longrightarrow> truthy e \<Longrightarrow> timeouts op = [] \<Longrightarrow>
     attempt su a b op n ws =
       \<lparr>result = Promise (Rejected (mainError (op\<lparr>errors := errors op @ [e]\<rparr>))),
        attempts = n, waits = ws\<rparr>"
  by (subst attempt.simps) (simp add: retry_def)


lemma get_resolved:
  assumes "dev_ip dev = Some a" and "su a (get_buffer lib dev) 1 = Resolved data"
  shows "get lib dev su options = get_then options data"
  using assms by (simp add: get_def send_Some attempt_Resolved[where r=data])

lemma attempts_ge: "n \<le> attempts (attempt su a b op n ws)"
proof (induction su a b op n ws rule: attempt.induct)
  case (1 su ip buf op n ws)
  show ?case
  proof (cases "su ip buf n")
    case (Resolved r) then show ?thesis by (simp add: attempt_Resolved[where r=r])
  next
    case Pending then show ?thesis by (simp add: attempt_Pending)
  next
    case (Rejected e)
    obtain o1 op' where Pair: "retry e op = (o1, op')" by (cases "retry e op")
    show ?thesis
    proof (cases o1)
      case None
      have "attempt su ip buf op n ws =
              \<lparr>result = Promise (Rejected (mainError op')), attempts = n, waits = ws\<rparr>"
        by (subst attempt.simps) (simp add: Rejected Pair None)
      then show ?thesis by simp
    next
      case (Some t)
      have "Suc n \<le> attempts (attempt su ip buf op' (Suc n) (ws @ [t]))"
        by (rule "1.IH"[OF Rejected Pair[symmetric] Some])
      moreover have "attempt su ip buf op n ws = attempt su ip buf op' (Suc n) (ws @ [t])"
        by (subst attempt.simps) (simp add: Rejected Pair Some)
      ultimately show ?thesis by simp
    qed
  qed
qed

lemma attempt_cong:
  assumes "\<And>n. su a b n = su' a b n"
  shows "attempt su a b op n ws = attempt su' a b op n ws"
  using assms
proof (induction su a b op n ws rule: attempt.induct)
  case (1 su ip buf op n ws)
  show ?case
  proof (cases "su ip buf n")
    case (Resolved r)
    then have "su' ip buf n = Resolved r" using "1.prems"[of n] by simp
    with Resolved show ?thesis
      by (simp add: attempt_Resolved[where r = r])
  next
    case Pending
    then have "su' ip buf n = Pending" using "1.prems"[of n] by simp
    with Pending show ?thesis by (simp add: attempt_Pending)
  next
    case (Rejected e)
    then have r': "su' ip buf n = Rejected e" using "1.prems"[of n] by simp
    obtain o1 op' where Pair: "retry e op = (o1, op')" by (cases "retry e op")
    show ?thesis
    proof (cases o1)
      case None
      have "attempt su ip buf op n ws =
              \<lparr>result = Promise (Rejected (mainError op')), attempts = n, waits = ws\<rparr>"
        by (subst attempt.simps) (simp add: Rejected Pair None)
      moreover have "attempt su' ip buf op n ws =
              \<lparr>result = Promise (Rejected (mainError op')), attempts = n, waits = ws\<rparr>"
        by (subst attempt.simps) (simp add: r' Pair None)
      ultimately show ?thesis by simp
    next
      case (Some t)
      have "attempt su ip buf op' (Suc n) (ws @ [t]) = attempt su' ip buf op' (Suc n) (ws @ [t])"
        by (rule "1.IH"[OF Rejected Pair[symmetric] Some "1.prems"])
      moreover have "attempt su ip buf op n ws = attempt su ip buf op' (Suc n) (ws @ [t])"
        by (subst attempt.simps) (simp add: Rejected Pair Some)
      moreover have "attempt su' ip buf op n ws = attempt su' ip buf op' (Suc n) (ws @ [t])"
        by (subst attempt.simps) (simp add: r' Pair Some)
      ultimately show ?thesis by simp
    qed
  qed
qed

lemma send_cong:
  assumes "\<And>a n. su a b n = su' a b n"
  shows "send su ip b = send su' ip b"
proof (cases ip)
  case None
  then show ?thesis by (simp add: send_def)
next
  case (Some a)
  have "\<And>n. su a b n = su' a b n" using assms by simp
  then show ?thesis
    unfolding Some send_Some by (rule attempt_cong)
qed

lemma is_ConnectionErrorD:
  "is_ConnectionError e \<Longrightarrow> truthy e \<and> to_key (own e ''message'') = error_message"
  by (cases e) (simp_all add: is_ConnectionError_def)

lemma mainError_loop_same:
  "\<forall>e\<in>set es. to_key (own e ''message'') = m \<Longrightarrow> es \<noteq> [] \<Longrightarrow> mc \<le> counts m + 1
     \<Longrightarrow> mainError_loop es counts me mc = last es"
proof (induction es arbitrary: counts me mc)
  case Nil
  then show ?case by simp
next
  case (Cons e es)
  show ?case
  proof (cases "es = []")
    case True
    with Cons.prems show ?thesis by (simp add: Let_def)
  next
    case False
    have "mainError_loop es (counts(m := counts m + 1)) e (counts m + 1) = last es"
      using Cons.prems False by (intro Cons.IH) simp_all
    with Cons.prems False show ?thesis by (simp add: Let_def)
  qed
qed

lemma mainError_same:
  "\<forall>e\<in>set (errors op). to_key (own e ''message'') = m \<Longrightarrow> errors op \<noteq> []
     \<Longrightarrow> mainError op = last (errors op)"
  unfolding mainError_def by (rule mainError_loop_same[where m = m]) simp_all

lemma five_connection_errors:
  assumes "\<forall>n\<in>{1..5}. \<exists>e. su a buf n = Rejected e \<and> is_ConnectionError e"
  shows "send su (Some a) buf =
           \<lparr>result = Promise (su a buf 5), attempts = 5,
            waits = [10000, 15000, 22500, 33750]\<rparr>"
proof -
  have h: "\<And>n. 1 \<le> n \<Longrightarrow> n \<le> 5 \<Longrightarrow> \<exists>e. su a buf n = Rejected e \<and> is_ConnectionError e"
    using assms by auto
  obtain e1 where e1: "su a buf 1 = Rejected e1" "is_ConnectionError e1"
    using h[of 1] by auto
  obtain e2 where e2: "su a buf 2 = Rejected e2" "is_ConnectionError e2"
    using h[of 2] by auto
  obtain e3 where e3: "su a buf 3 = Rejected e3" "is_ConnectionError e3"
    using h[of 3] by auto
  obtain e4 where e4: "su a buf 4 = Rejected e4" "is_ConnectionError e4"
    using h[of 4] by auto
  obtain e5 where e5: "su a buf 5 = Rejected e5" "is_ConnectionError e5"
    using h[of 5] by auto
  note d = e1(2)[THEN is_ConnectionErrorD] e2(2)[THEN is_ConnectionErrorD]
    e3(2)[THEN is_ConnectionErrorD] e4(2)[THEN is_ConnectionErrorD] e5(2)[THEN is_ConnectionErrorD]
  have s1: "su a buf (Suc 0) = Rejected e1" using e1 by simp
  have s2: "su a buf (Suc (Suc 0)) = Rejected e2" using e2 by (simp add: numeral_2_eq_2)
  have s3: "su a buf (Suc (Suc (Suc 0))) = Rejected e3" using e3 by (simp add: numeral_3_eq_3)
  have s4: "su a buf (Suc (Suc (Suc (Suc 0)))) = Rejected e4"
    using e4 by (simp add: eval_nat_numeral)
  have s5: "su a buf (Suc (Suc (Suc (Suc (Suc 0))))) = Rejected e5"
    using e5 by (simp add: eval_nat_numeral)
  have m: "mainError \<lparr>timeouts = [], errors = [e1, e2, e3, e4, e5]\<rparr> = e5"
    using d by (subst mainError_same[where m = error_message]) simp_all
  have run: "send su (Some a) buf =
               \<lparr>result = Promise (Rejected e5), attempts = 5,
                waits = [10000, 15000, 22500, 33750]\<rparr>"
    unfolding send_Some
    apply (simp only: One_nat_def)
    apply (subst attempt_Rejected_more[where su = su and a = a and b = buf and e = e1
            and n = "Suc 0"]; simp add: d s1)
    apply (subst attempt_Rejected_more[where su = su and a = a and b = buf and e = e2
            and n = "Suc (Suc 0)"]; simp add: d s2)
    apply (subst attempt_Rejected_more[where su = su and a = a and b = buf and e = e3
            and n = "Suc (Suc (Suc 0))"]; simp add: d s3)
    apply (subst attempt_Rejected_more[where su = su and a = a and b = buf and e = e4
            and n = "Suc (Suc (Suc (Suc 0)))"]; simp add: d s4)
    apply (subst attempt_Rejected_last[where su = su and a = a and b = buf and e = e5
            and n = "Suc (Suc (Suc (Suc (Suc 0))))"]; simp add: d s5 m)
    done
  show ?thesis using e5 by (simp add: run)
qed

lemmas world_simps = sendUnwrapped_def run_def sendUnwrapped_start_def session_def alive_def
  on_error_def on_timeout_def on_connect_def on_sendTimeout_def on_data_def destroy_def
  reject_def resolve_def upd_call_def settle_with_def clearTimeout_def Let_def

lemma refused_attempt:
  "sendUnwrapped lib (session dev rt) (\<lambda>n. [SockError 0 name msg]) ip buf n
     = Rejected (JErr name error_message)"
  by (simp add: world_simps)

text \<open>
  Claim C2. When each of the attempts fails with a connection error, \<^verbatim>\<open>_send\<close> makes
  exactly five attempts, the first and four retries; the waits between them are 10000,
  15000, 22500 and 33750 ms, each one and a half times the one before, so none is below
  the minimum of ten seconds and they do not decrease; and the promise is rejected with
  the error of the fifth attempt, which is a connection error still.
\<close>

theorem send_exhausts_retries:
  assumes "\<forall>n\<in>{1..5}. \<exists>e. su a buf n = Rejected e \<and> is_ConnectionError e"
  shows "attempts (send su (Some a) buf) = 5
       \<and> waits (send su (Some a) buf) = [10000, 15000, 22500, 33750]
       \<and> sorted (waits (send su (Some a) buf))
       \<and> (\<forall>t\<in>set (waits (send su (Some a) buf)). 10000 \<le> t)
       \<and> result (send su (Some a) buf) = Promise (su a buf 5)
       \<and> (\<exists>e. su a buf 5 = Rejected e \<and> is_ConnectionError e)"
proof -
  have "\<exists>e. su a buf 5 = Rejected e \<and> is_ConnectionError e"
    using assms by (rule bspec) simp
  then obtain e where "su a buf 5 = Rejected e" "is_ConnectionError e"
    by blast
  then show ?thesis
    by (simp add: five_connection_errors[where su = su and a = a and buf = buf, OF assms])
qed

theorem send_exhausts_retries_witness:
  "attempts (send (sendUnwrapped example_library (session example_device 5)
                     (\<lambda>n. [SockError 0 ''Error'' ''connect ECONNREFUSED'']))
               (Some ''192.168.1.20'') ''frame'') = 5
   \<and> result (send (sendUnwrapped example_library (session example_device 5)
                     (\<lambda>n. [SockError 0 ''Error'' ''connect ECONNREFUSED'']))
               (Some ''192.168.1.20'') ''frame'')
       = Promise (Rejected (JErr ''Error'' error_message))"
proof -
  let ?su = "sendUnwrapped example_library (session example_device 5)
               (\<lambda>n. [SockError 0 ''Error'' ''connect ECONNREFUSED''])"
  have hyp: "\<forall>n\<in>{1..5}. \<exists>e. ?su ''192.168.1.20'' ''frame'' n = Rejected e \<and> is_ConnectionError e"
    by (simp add: refused_attempt is_ConnectionError_def)
  from send_exhausts_retries[of ?su "''192.168.1.20''" "''frame''", OF hyp] show ?thesis
    by (simp add: refused_attempt)
qed

subsection \<open>Query\<close>

text \<open>
  Claim C8. The frame of a query encodes the object with \<^verbatim>\<open>gwId\<close> and \<^verbatim>\<open>devId\<close>, both
  the id of the device, under the command byte \<^verbatim>\<open>0a\<close>, which is 10; the object is
  handed to the encoder as it is, and neither the cipher nor the key of the device has
  any part in the frame. This frame is all the query passes to the transport: two
  transports that agree on it give the same result.
\<close>

theorem get_request_plaintext:
  "get_buffer lib dev =
     parser_encode lib
       (Object (JObj [(''gwId'', JStr (dev_id dev)), (''devId'', JStr (dev_id dev))])) ''0a''
   \<and> hex_value ''0a'' = 10
   \<and> get_buffer lib (dev\<lparr>dev_cipher := c, dev_key := k\<rparr>) = get_buffer lib dev
   \<and> ((\<forall>ip n. su ip (get_buffer lib dev) n = su' ip (get_buffer lib dev) n) \<longrightarrow>
        get lib dev su options = get lib dev su' options)"
proof -
  have "get lib dev su options = get lib dev su' options"
    if "\<forall>ip n. su ip (get_buffer lib dev) n = su' ip (get_buffer lib dev) n"
    using send_cong[of su "get_buffer lib dev" su' "dev_ip dev"] that
    by (simp add: get_def)
  then show ?thesis
    by (simp add: get_buffer_def get_payload_def hex_value_def hex_digit_def upt_rec)
qed

theorem get_request_plaintext_witness:
  "get_buffer example_library example_device = ''0a{}''
   \<and> get_buffer example_library
         (example_device\<lparr>dev_cipher := example_cipher\<lparr>encrypt := rev\<rparr>, dev_key := ''other''\<rparr>)
       = ''0a{}''
   \<and> get example_library example_device
         (\<lambda>ip b n. if b = ''0a{}'' then Resolved (JObj [(''dps'', JObj [(''1'', JBool True)])])
                    else Pending) JUndefined
       = Resolved (JBool True)"
proof -
  let ?reply = "JObj [(''dps'', JObj [(''1'', JBool True)])]"
  have b: "get_buffer example_library example_device = ''0a{}''"
    by (simp add: get_buffer_def example_library_def)
  have g: "get example_library example_device (\<lambda>ip b n. Resolved ?reply) JUndefined
             = Resolved (JBool True)"
    by (simp add: get_resolved[where a = "''192.168.1.20''" and data = ?reply]
        example_device_def get_then_def get_options_def get_prop_def)
  from get_request_plaintext[where lib = example_library and dev = example_device
          and c = "example_cipher\<lparr>encrypt := rev\<rparr>" and k = "''other''"
          and su = "\<lambda>ip b n. if b = ''0a{}'' then Resolved ?reply else Pending"
          and su' = "\<lambda>ip b n. Resolved ?reply" and options = JUndefined,
          THEN conjunct2, THEN conjunct2]
  show ?thesis by (simp add: b g)
qed

text \<open>
  Claim C1, as the code has it. With no options, a reply whose \<^verbatim>\<open>dps\<close> map has a value
  other than \<^verbatim>\<open>undefined\<close> and \<^verbatim>\<open>null\<close> under the key \<^verbatim>\<open>1\<close> resolves the query to that
  value, whatever other keys the map has, and any other map resolves it to the whole map;
  with \<^verbatim>\<open>options.dps = k\<close>, \<open>k\<close> truthy and \<^verbatim>\<open>options.schema\<close> not \<^verbatim>\<open>true\<close>, the query
  resolves to the value of the map at \<open>k\<close>.
\<close>

theorem get_shapes_reply:
  assumes "dev_ip dev = Some a"
      and "su a (get_buffer lib dev) 1 = Resolved data"
      and "\<not> loosely_undefined data"
      and "own data ''dps'' = JObj kvs"
  shows "get lib dev su JUndefined =
           (if loosely_undefined (own (JObj kvs) ''1'') then Resolved (JObj kvs)
            else Resolved (own (JObj kvs) ''1''))
       \<and> (\<forall>options. truthy options \<and> truthy (own options ''dps'')
                      \<and> own options ''schema'' \<noteq> JBool True
             \<longrightarrow> get lib dev su options
                   = Resolved (own (JObj kvs) (to_key (own options ''dps''))))"
  using assms
  by (simp add: get_resolved[where data = data] get_then_def get_options_def get_prop_def)

theorem get_shapes_reply_witness:
  "get example_library example_device
     (\<lambda>ip buf n. Resolved (JObj [(''dps'', JObj [(''1'', JBool True), (''2'', JNum 5)])]))
     JUndefined = Resolved (JBool True)
   \<and> get example_library example_device
     (\<lambda>ip buf n. Resolved (JObj [(''dps'', JObj [(''1'', JBool True), (''2'', JNum 5)])]))
     (JObj [(''dps'', JStr ''2'')]) = Resolved (JNum 5)"
  using get_shapes_reply[where dev = example_device and a = "''192.168.1.20''"
          and su = "\<lambda>ip buf n. Resolved (JObj [(''dps'', JObj [(''1'', JBool True), (''2'', JNum 5)])])"
          and lib = example_library
          and data = "JObj [(''dps'', JObj [(''1'', JBool True), (''2'', JNum 5)])]"
          and kvs = "[(''1'', JBool True), (''2'', JNum 5)]"]
  by (simp add: example_device_def)

text \<open>
  Claim C1 as stated fails on a map with more than one key: the reply
  \<^verbatim>\<open>{dps: {"1": true, "2": 5}}\<close> resolves a query without options to \<^verbatim>\<open>true\<close>, not to the
  map.
\<close>

theorem get_shapes_reply_counterexample:
  "length (keys (JObj [(''1'', JBool True), (''2'', JNum 5)])) = 2
   \<and> get example_library example_device
       (\<lambda>ip buf n. Resolved (JObj [(''dps'', JObj [(''1'', JBool True), (''2'', JNum 5)])]))
       JUndefined = Resolved (JBool True)
   \<and> get example_library example_device
       (\<lambda>ip buf n. Resolved (JObj [(''dps'', JObj [(''1'', JBool True), (''2'', JNum 5)])]))
       JUndefined \<noteq> Resolved (JObj [(''1'', JBool True), (''2'', JNum 5)])"
  by (simp add: get_resolved[where a = "''192.168.1.20''" and
        data = "JObj [(''dps'', JObj [(''1'', JBool True), (''2'', JNum 5)])]"]
      example_device_def get_then_def get_options_def get_prop_def)

subsection \<open>The missing address\<close>

text \<open>
  Claim C3, as the code has it. Called with \<^verbatim>\<open>undefined\<close> for the address, \<^verbatim>\<open>_send\<close>
  throws the TypeError \<^verbatim>\<open>Device missing IP address.\<close> at once: \<^verbatim>\<open>_sendUnwrapped\<close> is never
  called, so no socket is opened, and nothing is retried. The guard is for \<^verbatim>\<open>undefined\<close>
  alone: with any string for the address, the empty one too, an attempt is made.
\<close>

theorem send_missing_address:
  "send su None buf =
     \<lparr>result = Throws (JErr ''TypeError'' ''Device missing IP address.''),
      attempts = 0, waits = []\<rparr>
   \<and> is_MissingAddressError (JErr ''TypeError'' ''Device missing IP address.'')
   \<and> 1 \<le> attempts (send su (Some a) buf)"
  by (simp add: send_def is_MissingAddressError_def attempts_ge)

theorem send_missing_address_witness:
  "attempts (send (sendUnwrapped example_library (session example_device 5)
                     (\<lambda>n. [SockError 0 ''Error'' ''connect ECONNREFUSED''])) None ''frame'') = 0
   \<and> result (send (sendUnwrapped example_library (session example_device 5)
                     (\<lambda>n. [SockError 0 ''Error'' ''connect ECONNREFUSED''])) None ''frame'')
       = Throws (JErr ''TypeError'' ''Device missing IP address.'')"
  using send_missing_address[where buf = "''frame''" and a = "[]" and
          su = "sendUnwrapped example_library (session example_device 5)
                  (\<lambda>n. [SockError 0 ''Error'' ''connect ECONNREFUSED''])"]
  by simp

text \<open>
  Claim C3 as stated fails on the empty address: \<^verbatim>\<open>_send\<close> does not throw, a socket is
  opened for each of five attempts against a host that refuses, and the error that
  comes back is the communication error, not the missing address.
\<close>

theorem send_missing_address_counterexample:
  "attempts (send (sendUnwrapped example_library (session example_device 5)
                     (\<lambda>n. [SockError 0 ''Error'' ''connect ECONNREFUSED''])) (Some []) ''frame'') = 5
   \<and> result (send (sendUnwrapped example_library (session example_device 5)
                     (\<lambda>n. [SockError 0 ''Error'' ''connect ECONNREFUSED''])) (Some []) ''frame'')
       = Promise (Rejected (JErr ''Error'' error_message))
   \<and> \<not> is_MissingAddressError (JErr ''Error'' error_message)
   \<and> map (\<lambda>k. host (client k))
         (calls (sendUnwrapped_start [] ''frame'' (session example_device 5))) = [[]]"
proof -
  let ?su = "sendUnwrapped example_library (session example_device 5)
               (\<lambda>n. [SockError 0 ''Error'' ''connect ECONNREFUSED''])"
  have hyp: "\<forall>n\<in>{1..5}. \<exists>e. ?su [] ''frame'' n = Rejected e \<and> is_ConnectionError e"
    by (simp add: refused_attempt is_ConnectionError_def)
  have sent: "send ?su (Some []) ''frame'' =
                \<lparr>result = Promise (Rejected (JErr ''Error'' error_message)), attempts = 5,
                 waits = [10000, 15000, 22500, 33750]\<rparr>"
    using five_connection_errors[where su = ?su and a = "[]" and buf = "''frame''", OF hyp]
    by (simp add: refused_attempt)
  have opened: "map (\<lambda>k. host (client k))
                  (calls (sendUnwrapped_start [] ''frame'' (session example_device 5))) = [[]]"
    by (simp add: sendUnwrapped_start_def session_def)
  show ?thesis
    by (simp add: sent opened is_MissingAddressError_def)
qed

subsection \<open>Update\<close>

text \<open>
  Claim C5. For a clock at or after the epoch, the frame of an update encodes, under the
  command byte \<^verbatim>\<open>07\<close>, which is 7, the envelope of protocol version, signature and
  ciphertext: the ciphertext encrypts the JSON text of the object with \<^verbatim>\<open>devId\<close>, an
  empty \<^verbatim>\<open>uid\<close>, the seconds of the clock in decimal as \<^verbatim>\<open>t\<close>, and \<^verbatim>\<open>dps\<close>; the signature is
  the digest of \<^verbatim>\<open>data=\<close>, the ciphertext, \<^verbatim>\<open>||lpv=\<close>, the version, \<^verbatim>\<open>||\<close> and the key.
  This frame is all the update passes to the transport: two transports that agree on it
  give the same result.
\<close>

theorem set_request_envelope:
  assumes "0 \<le> now"
  shows "(let ciphertext =
            encrypt (dev_cipher dev)
              (json_stringify lib
                 (JObj [(''devId'', JStr (dev_id dev)), (''uid'', JStr []),
                        (''t'', JStr (show_int (now div 1000))), (''dps'', dps)]))
          in set_buffer lib dev now dps =
               parser_encode lib
                 (Buffer (spec_envelope (dev_version dev)
                            (spec_signature (dev_cipher dev) ciphertext (dev_version dev)
                               (dev_key dev))
                            ciphertext)) ''07'')
       \<and> hex_value ''07'' = 7
       \<and> (set_dps options = Inr dps
            \<and> (\<forall>ip n. su ip (set_buffer lib dev now dps) n = su' ip (set_buffer lib dev now dps) n)
          \<longrightarrow> set_call lib dev now su options = set_call lib dev now su' options)"
proof -
  have "set_call lib dev now su options = set_call lib dev now su' options"
    if "set_dps options = Inr dps"
      and "\<forall>ip n. su ip (set_buffer lib dev now dps) n = su' ip (set_buffer lib dev now dps) n"
    using send_cong[of su "set_buffer lib dev now dps" su' "dev_ip dev"] that
    by (simp add: set_call_def)
  then show ?thesis
    using assms
    by (simp add: set_buffer_def set_payload_def timeStamp_def spec_envelope_def
        spec_signature_def Let_def hex_value_def hex_digit_def upt_rec)
qed

theorem set_request_envelope_witness:
  "set_buffer example_library example_device 1600000000123 (JObj [(''1'', JBool True)])
     = ''073.1#data=<{}>||lpv=3.1||secret<{}>''
   \<and> set_call example_library example_device 1600000000123
         (\<lambda>ip b n. if b = ''073.1#data=<{}>||lpv=3.1||secret<{}>'' then Resolved JUndefined
                    else Pending)
         (JObj [(''set'', JBool True)])
       = Promise (Resolved (JBool True))"
proof -
  have b: "set_buffer example_library example_device 1600000000123 (JObj [(''1'', JBool True)])
             = ''073.1#data=<{}>||lpv=3.1||secret<{}>''"
    by (simp add: set_buffer_def example_library_def example_device_def example_cipher_def)
  have d: "set_dps (JObj [(''set'', JBool True)]) = Inr (JObj [(''1'', JBool True)])"
    by (simp add: set_dps_def)
  have g: "set_call example_library example_device 1600000000123
             (\<lambda>ip b n. Resolved JUndefined) (JObj [(''set'', JBool True)])
           = Promise (Resolved (JBool True))"
    by (simp add: set_call_def d send_Some example_device_def
        attempt_Resolved[where r = JUndefined])
  from set_request_envelope[where now = 1600000000123 and lib = example_library
          and dev = example_device and dps = "JObj [(''1'', JBool True)]"
          and options = "JObj [(''set'', JBool True)]"
          and su = "\<lambda>ip b n. if b = ''073.1#data=<{}>||lpv=3.1||secret<{}>''
                              then Resolved JUndefined else Pending"
          and su' = "\<lambda>ip b n. Resolved JUndefined", THEN conjunct2, THEN conjunct2]
  show ?thesis by (simp add: b d g)
qed

text \<open>
  Claim C9, as the code has it. Options whose \<^verbatim>\<open>dps\<close> is a key \<open>k\<close>, neither \<^verbatim>\<open>undefined\<close>
  nor \<^verbatim>\<open>null\<close>, give the property map with the single key \<open>k\<close>, as a string, and the value
  \<^verbatim>\<open>options.set\<close>; options with no \<^verbatim>\<open>dps\<close> and a \<^verbatim>\<open>set\<close> that is neither \<^verbatim>\<open>undefined\<close> nor
  \<^verbatim>\<open>null\<close> give the map from \<^verbatim>\<open>1\<close> to that value; and options in which both \<^verbatim>\<open>dps\<close> and
  \<^verbatim>\<open>set\<close> are \<^verbatim>\<open>undefined\<close> or \<^verbatim>\<open>null\<close> are the property map themselves.
\<close>

theorem set_option_shapes:
  assumes "\<not> loosely_undefined options"
  shows "(\<not> loosely_undefined (own options ''dps'') \<longrightarrow>
            set_dps options
              = Inr (JObj [(to_key (own options ''dps''), own options ''set'')]))
       \<and> (own options ''dps'' = JUndefined \<and> \<not> loosely_undefined (own options ''set'') \<longrightarrow>
            set_dps options = Inr (JObj [(''1'', own options ''set'')]))
       \<and> (loosely_undefined (own options ''dps'') \<and> loosely_undefined (own options ''set'') \<longrightarrow>
            set_dps options = Inr options)"
  using assms by (auto simp: set_dps_def toString_def)

theorem set_option_shapes_witness:
  "set_dps (JObj [(''dps'', JNum 2), (''set'', JNum 5)]) = Inr (JObj [(''2'', JNum 5)])
   \<and> set_dps (JObj [(''set'', JBool True)]) = Inr (JObj [(''1'', JBool True)])
   \<and> set_dps (JObj [(''2'', JNum 5), (''3'', JStr ''a'')])
       = Inr (JObj [(''2'', JNum 5), (''3'', JStr ''a'')])"
  using set_option_shapes[where options = "JObj [(''dps'', JNum 2), (''set'', JNum 5)]"]
        set_option_shapes[where options = "JObj [(''set'', JBool True)]"]
        set_option_shapes[where options = "JObj [(''2'', JNum 5), (''3'', JStr ''a'')]"]
  by (simp add: show_int_def digits.simps)

text \<open>
  Claim C9 as stated fails on \<^verbatim>\<open>{dps: "3"}\<close>: the object has no key \<^verbatim>\<open>set\<close>, so it has
  neither of the two shapes, and yet it is not the property map that is sent.
\<close>

theorem set_option_shapes_counterexample:
  "''set'' \<notin> set (keys (JObj [(''dps'', JStr ''3'')]))
   \<and> set_dps (JObj [(''dps'', JStr ''3'')]) = Inr (JObj [(''3'', JUndefined)])
   \<and> set_dps (JObj [(''dps'', JStr ''3'')]) \<noteq> Inr (JObj [(''dps'', JStr ''3'')])"
  by (simp add: set_dps_def toString_def)





subsection \<open>One attempt\<close>

lemmas handler_simps = alive_def on_error_def on_timeout_def on_connect_def
  on_sendTimeout_def on_data_def destroy_def reject_def resolve_def upd_call_def
  settle_with_def clearTimeout_def Let_def

lemma step_session:
  "device (step lib w ev) = device w \<and> responseTimeout (step lib w ev) = responseTimeout w
   \<and> length (calls (step lib w ev)) = length (calls w)"
  by (cases ev) (auto simp: handler_simps split: sum.splits option.splits)

lemma step_other_call:
  "call_of ev \<noteq> c \<Longrightarrow> calls (step lib w ev) ! c = calls w ! c"
  by (cases ev) (auto simp: handler_simps split: sum.splits option.splits)

lemma run_Nil: "run lib w [] = w"
  by (simp add: run_def)

lemma run_Cons: "run lib w (ev # evs) = run lib (step lib w ev) evs"
  by (simp add: run_def)

lemma run_append: "run lib w (xs @ ys) = run lib (run lib w xs) ys"
  by (simp add: run_def)

lemma run_session:
  "device (run lib w evs) = device w \<and> responseTimeout (run lib w evs) = responseTimeout w
   \<and> length (calls (run lib w evs)) = length (calls w)"
  by (induction evs arbitrary: w) (simp_all add: run_Nil run_Cons step_session)

lemma run_other_call:
  "\<forall>ev\<in>set evs. call_of ev \<noteq> c \<Longrightarrow> calls (run lib w evs) ! c = calls w ! c"
  by (induction evs arbitrary: w) (simp_all add: run_Nil run_Cons step_other_call)


lemma start_frame:
  "device (sendUnwrapped_start ip buf w) = device w
   \<and> responseTimeout (sendUnwrapped_start ip buf w) = responseTimeout w
   \<and> sendTimeout (sendUnwrapped_start ip buf w) = sendTimeout w
   \<and> timers (sendUnwrapped_start ip buf w) = timers w
   \<and> take (length (calls w)) (calls (sendUnwrapped_start ip buf w)) = calls w"
  by (simp add: sendUnwrapped_start_def)









lemma finished_step:
  "finished w c \<Longrightarrow>
     finished (step lib w ev) c \<and> promise (calls (step lib w ev) ! c) = promise (calls w ! c)"
  by (cases ev) (auto simp: finished_def handler_simps nth_list_update split: sum.splits option.splits)

lemma finished_run:
  "finished w c \<Longrightarrow>
     finished (run lib w evs) c \<and> promise (calls (run lib w evs) ! c) = promise (calls w ! c)"
proof (induction evs arbitrary: w)
  case Nil
  then show ?case by (simp add: run_Nil)
next
  case (Cons ev evs)
  from finished_step[OF Cons.prems, of lib ev] Cons.IH[of "step lib w ev"]
  show ?case by (simp add: run_Cons)
qed





text \<open>
  Claim C6, as the code has it. Payload, frame and envelope are values computed by
  \<^verbatim>\<open>get\<close> and \<^verbatim>\<open>set\<close>: the session has no field for them. Socket and promise belong to
  one call of \<^verbatim>\<open>_sendUnwrapped\<close>: whatever events arrive, the device and the response
  timeout of the session stay as they were, no call appears or disappears, and the socket
  and promise of a call are changed by that call's events only; starting a call changes
  nothing that was there. The field \<^verbatim>\<open>_sendTimeout\<close> and the pending timers are left out of
  this statement.
\<close>

theorem call_state_is_local:
  "device (run lib w evs) = device w
   \<and> responseTimeout (run lib w evs) = responseTimeout w
   \<and> length (calls (run lib w evs)) = length (calls w)
   \<and> ((\<forall>ev\<in>set evs. call_of ev \<noteq> c) \<longrightarrow> calls (run lib w evs) ! c = calls w ! c)
   \<and> device (sendUnwrapped_start ip buf w) = device w
   \<and> responseTimeout (sendUnwrapped_start ip buf w) = responseTimeout w
   \<and> sendTimeout (sendUnwrapped_start ip buf w) = sendTimeout w
   \<and> timers (sendUnwrapped_start ip buf w) = timers w
   \<and> take (length (calls w)) (calls (sendUnwrapped_start ip buf w)) = calls w"
  using run_session[of lib w evs] run_other_call[of evs c lib w] start_frame[of ip buf w]
  by blast

theorem call_state_is_local_witness:
  "device (run example_library
             (sendUnwrapped_start ''192.168.1.20'' ''second''
                (sendUnwrapped_start ''192.168.1.20'' ''first'' (session example_device 5)))
             [Connect 0, Connect 1, Data 0 ''reply'']) = example_device
   \<and> calls (run example_library
             (sendUnwrapped_start ''192.168.1.20'' ''second''
                (sendUnwrapped_start ''192.168.1.20'' ''first'' (session example_device 5)))
             [Connect 0, Data 0 ''reply'']) ! 1
     = \<lparr>client = \<lparr>host = ''192.168.1.20'', port = 6668, connected = False, destroyed = False,
                   idle = Some 1000, written = []\<rparr>,
        buffer = ''second'', promise = Pending\<rparr>"
  using call_state_is_local[where lib = example_library and c = 1
          and w = "sendUnwrapped_start ''192.168.1.20'' ''second''
                     (sendUnwrapped_start ''192.168.1.20'' ''first'' (session example_device 5))"
          and evs = "[Connect 0, Data 0 ''reply'']"]
        call_state_is_local[where lib = example_library and c = 2
          and w = "sendUnwrapped_start ''192.168.1.20'' ''second''
                     (sendUnwrapped_start ''192.168.1.20'' ''first'' (session example_device 5))"
          and evs = "[Connect 0, Connect 1, Data 0 ''reply'']"]
  by (simp add: sendUnwrapped_start_def session_def)

text \<open>
  Claim C6 as stated fails on the response timer, whose handle is kept in the field
  \<^verbatim>\<open>_sendTimeout\<close> of the session. After a call has resolved, the field still names its
  timer. After a call has failed on a socket error, its timer is still pending. And with
  two calls connected on one session, the reply to the first clears the timer of the
  second, the one the field names by then: the timer of the first stays pending, and the
  second call, left without a timer, is pending still when its timeout would have fired.
\<close>

theorem call_state_is_local_counterexample:
  "sendTimeout (session example_device 5) = None
   \<and> promise (calls (run example_library
                (sendUnwrapped_start ''192.168.1.20'' ''first'' (session example_device 5))
                [Connect 0, Data 0 ''reply'']) ! 0)
       = Resolved (JObj [(''dps'', JObj [(''1'', JBool True)])])
   \<and> sendTimeout (run example_library
                (sendUnwrapped_start ''192.168.1.20'' ''first'' (session example_device 5))
                [Connect 0, Data 0 ''reply'']) = Some 0
   \<and> promise (calls (run example_library
                (sendUnwrapped_start ''192.168.1.20'' ''first'' (session example_device 5))
                [Connect 0, SockError 0 ''Error'' ''read ECONNRESET'']) ! 0)
       = Rejected (JErr ''Error'' error_message)
   \<and> timers (run example_library
                (sendUnwrapped_start ''192.168.1.20'' ''first'' (session example_device 5))
                [Connect 0, SockError 0 ''Error'' ''read ECONNRESET'']) = [(0, 5000)]
   \<and> timers (run example_library
                (sendUnwrapped_start ''192.168.1.20'' ''second''
                   (sendUnwrapped_start ''192.168.1.20'' ''first'' (session example_device 5)))
                [Connect 0, Connect 1]) = [(0, 5000), (1, 5000)]
   \<and> timers (run example_library
                (sendUnwrapped_start ''192.168.1.20'' ''second''
                   (sendUnwrapped_start ''192.168.1.20'' ''first'' (session example_device 5)))
                [Connect 0, Connect 1, Data 0 ''reply'']) = [(0, 5000)]
   \<and> promise (calls (run example_library
                (sendUnwrapped_start ''192.168.1.20'' ''second''
                   (sendUnwrapped_start ''192.168.1.20'' ''first'' (session example_device 5)))
                [Connect 0, Connect 1, Data 0 ''reply'', SendTimeout 1]) ! 1) = Pending"
  by (simp add: world_simps example_library_def example_device_def example_cipher_def)


lemma connected_world:
  "step lib (sendUnwrapped_start ip buf (session dev rt)) (Connect 0)
     = \<lparr>device = dev, responseTimeout = rt, sendTimeout = Some 0, timers = [(0, rt * 1000)],
        calls = [\<lparr>client = \<lparr>host = ip, port = 6668, connected = True, destroyed = False,
                            idle = None, written = [buf]\<rparr>,
                  buffer = buf, promise = Pending\<rparr>],
        uncaught = []\<rparr>"
  by (simp add: handler_simps sendUnwrapped_start_def session_def)

lemma run_undecodable:
  assumes "reply_throws lib dev bytes = Some e"
  shows "run lib (sendUnwrapped_start ip buf (session dev rt)) [Connect 0, Data 0 bytes]
         = \<lparr>device = dev, responseTimeout = rt, sendTimeout = Some 0, timers = [],
            calls = [\<lparr>client = \<lparr>host = ip, port = 6668, connected = True, destroyed = True,
                                idle = None, written = [buf]\<rparr>,
                      buffer = buf, promise = Pending\<rparr>],
            uncaught = [e]\<rparr>"
  using assms
  apply (simp only: run_Cons run_Nil connected_world)
  apply (auto simp: reply_throws_def handler_simps split: sum.splits if_splits)
  done

text \<open>
  Claim C7, on the code. When \<^verbatim>\<open>Parser.parse\<close> or \<^verbatim>\<open>decrypt\<close> throws on the bytes of a
  reply, the error leaves the handler of \<^verbatim>\<open>data\<close> uncaught: the promise of the attempt is
  pending, and stays so whatever happens later, since the socket is destroyed and the
  timer cleared. \<^verbatim>\<open>_send\<close> therefore makes one attempt, waits for nothing, and returns a
  promise that never settles: the error is not retried, and it does not reach the caller
  either.
\<close>

theorem undecodable_reply_never_settles:
  assumes "reply_throws lib dev bytes = Some e"
  shows "promise (calls (run lib (sendUnwrapped_start ip buf (session dev rt))
                           [Connect 0, Data 0 bytes]) ! 0) = Pending
       \<and> uncaught (run lib (sendUnwrapped_start ip buf (session dev rt))
                           [Connect 0, Data 0 bytes]) = [e]
       \<and> (\<forall>evs. promise (calls (run lib (sendUnwrapped_start ip buf (session dev rt))
                                   ([Connect 0, Data 0 bytes] @ evs)) ! 0) = Pending)
       \<and> send (sendUnwrapped lib (session dev rt) (\<lambda>n. [Connect 0, Data 0 bytes]))
               (Some ip) buf
           = \<lparr>result = Promise Pending, attempts = 1, waits = []\<rparr>"
proof -
  let ?w1 = "run lib (sendUnwrapped_start ip buf (session dev rt)) [Connect 0, Data 0 bytes]"
  note w1 = run_undecodable[OF assms, of ip buf rt]
  have p: "promise (calls ?w1 ! 0) = Pending" and u: "uncaught ?w1 = [e]"
    by (simp_all add: w1)
  have f: "finished ?w1 0"
    by (simp add: w1 finished_def)
  have later: "\<forall>evs. promise (calls (run lib (sendUnwrapped_start ip buf (session dev rt))
                                   ([Connect 0, Data 0 bytes] @ evs)) ! 0) = Pending"
    using finished_run[OF f, of lib] p by (simp only: run_append) simp
  have "sendUnwrapped lib (session dev rt) (\<lambda>n. [Connect 0, Data 0 bytes]) ip buf 1 = Pending"
    using p by (simp add: sendUnwrapped_def session_def)
  then have s: "send (sendUnwrapped lib (session dev rt) (\<lambda>n. [Connect 0, Data 0 bytes]))
                  (Some ip) buf
                = \<lparr>result = Promise Pending, attempts = 1, waits = []\<rparr>"
    by (simp add: send_Some attempt_Pending)
  from p u later s show ?thesis by blast
qed

theorem undecodable_reply_never_settles_witness:
  "reply_throws example_library example_device [] = Some (JErr ''Error'' ''Packet too small'')
   \<and> send (sendUnwrapped example_library (session example_device 5)
              (\<lambda>n. [Connect 0, Data 0 []])) (Some ''192.168.1.20'') ''frame''
       = \<lparr>result = Promise Pending, attempts = 1, waits = []\<rparr>
   \<and> uncaught (run example_library
                  (sendUnwrapped_start ''192.168.1.20'' ''frame'' (session example_device 5))
                  [Connect 0, Data 0 []]) = [JErr ''Error'' ''Packet too small'']"
proof -
  have r: "reply_throws example_library example_device []
             = Some (JErr ''Error'' ''Packet too small'')"
    by (simp add: reply_throws_def example_library_def)
  from undecodable_reply_never_settles[OF r, of "''192.168.1.20''" "''frame''" 5] r
  show ?thesis by simp
qed

end
